theory Spec2Isabelle
  imports Complex_Main "HOL-Library.Sublist"
begin

section \<open>Python values\<close>

text \<open>
  A Python \<open>str\<close> is a sequence of Unicode code points: \<open>task[:100]\<close> and \<open>len\<close> count
  code points, and the phrases of \<open>MOCK_RESPONSES\<close> are Cyrillic. A string is therefore
  a list of code points; \<open>ustr\<close> embeds an ASCII literal.
\<close>

type_synonym pystr = "nat list"

definition ustr :: "string \<Rightarrow> pystr" where
  "ustr cs = map of_char cs"

text \<open>
  What \<open>json.load\<close> and \<open>response.json()\<close> produce, and what the dict literals of the
  source build. A dict is an association list that is read with \<open>map_of\<close>. The payload of
  a float is never inspected by the program.
\<close>

datatype json =
    JNull
  | JBool bool
  | JInt int
  | JFloat real
  | JStr pystr
  | JList "json list"
  | JObj "(pystr \<times> json) list"

text \<open>What the outbound \<open>client.post\<close> can raise.\<close>

datatype client_error = RequestError | ConnectError | TimeoutError | OtherClientError

datatype error =
    HTTPException int pystr
  | Propagated client_error
  | JSONDecodeError
  | AttributeError
  | TypeError
  | KeyError
  | IndexError
  | ValueError
  | ValidationError

definition bind_err :: "error + 'a \<Rightarrow> ('a \<Rightarrow> error + 'b) \<Rightarrow> error + 'b" where
  "bind_err r f = (case r of Inl e \<Rightarrow> Inl e | Inr x \<Rightarrow> f x)"

text \<open>\<open>d.get(k, dflt)\<close>: only a dict has the method.\<close>

definition py_get :: "json \<Rightarrow> pystr \<Rightarrow> json \<Rightarrow> error + json" where
  "py_get d k dflt =
     (case d of
        JObj kvs \<Rightarrow> Inr (case map_of kvs k of None \<Rightarrow> dflt | Some v \<Rightarrow> v)
      | _ \<Rightarrow> Inl AttributeError)"

text \<open>\<open>d[k]\<close> with a string key.\<close>

definition py_getitem :: "json \<Rightarrow> pystr \<Rightarrow> error + json" where
  "py_getitem d k =
     (case d of
        JObj kvs \<Rightarrow> (case map_of kvs k of None \<Rightarrow> Inl KeyError | Some v \<Rightarrow> Inr v)
      | _ \<Rightarrow> Inl TypeError)"

text \<open>
  What a \<open>for\<close> runs over: the elements of a list, the characters of a string, the keys
  of a dict; anything else is not iterable.
\<close>

definition py_iter :: "json \<Rightarrow> error + json list" where
  "py_iter v =
     (case v of
        JList xs \<Rightarrow> Inr xs
      | JStr s \<Rightarrow> Inr (map (\<lambda>c. JStr [c]) s)
      | JObj kvs \<Rightarrow> Inr (map (\<lambda>kv. JStr (fst kv)) kvs)
      | _ \<Rightarrow> Inl TypeError)"

text \<open>\<open>sep.join(xs)\<close>: every item has to be a \<open>str\<close>.\<close>

fun py_join :: "pystr \<Rightarrow> json list \<Rightarrow> error + pystr" where
  "py_join sep [] = Inr []"
| "py_join sep (x # xs) =
     (case x of
        JStr s \<Rightarrow>
          bind_err (py_join sep xs) (\<lambda>r. Inr (if xs = [] then s else s @ sep @ r))
      | _ \<Rightarrow> Inl TypeError)"

text \<open>\<open>str.split()\<close> with no argument splits at runs of Unicode whitespace.\<close>

definition py_isspace :: "nat \<Rightarrow> bool" where
  "py_isspace c =
     ((9 \<le> c \<and> c \<le> 13) \<or> (28 \<le> c \<and> c \<le> 32) \<or> c = 133 \<or> c = 160 \<or> c = 5760 \<or>
      (8192 \<le> c \<and> c \<le> 8202) \<or> c = 8232 \<or> c = 8233 \<or> c = 8239 \<or> c = 8287 \<or>
      c = 12288)"

fun split_acc :: "pystr \<Rightarrow> pystr \<Rightarrow> pystr list" where
  "split_acc cur [] = (if cur = [] then [] else [rev cur])"
| "split_acc cur (c # cs) =
     (if py_isspace c
      then (if cur = [] then split_acc [] cs else rev cur # split_acc [] cs)
      else split_acc (c # cur) cs)"

definition py_split :: "pystr \<Rightarrow> pystr list" where
  "py_split s = split_acc [] s"

section \<open>The random module\<close>

text \<open>
  The generator's state is the stream of raw draws still to come. \<open>_randbelow(n)\<close>
  reduces the next draw below \<open>n\<close>; \<open>random.choice\<close> and \<open>random.randint\<close> are built on
  it as in the standard library.
\<close>

type_synonym rng = "nat \<Rightarrow> nat"

definition randbelow :: "nat \<Rightarrow> rng \<Rightarrow> nat \<times> rng" where
  "randbelow n g = (g 0 mod n, \<lambda>i. g (Suc i))"

definition choice :: "'a list \<Rightarrow> rng \<Rightarrow> error + ('a \<times> rng)" where
  "choice xs g =
     (if xs = [] then Inl IndexError
      else (case randbelow (length xs) g of (i, g') \<Rightarrow> Inr (xs ! i, g')))"

definition randint :: "int \<Rightarrow> int \<Rightarrow> rng \<Rightarrow> error + (int \<times> rng)" where
  "randint a b g =
     (if b < a then Inl ValueError
      else (case randbelow (nat (b - a + 1)) g of (k, g') \<Rightarrow> Inr (a + int k, g')))"

section \<open>Module state\<close>

text \<open>
  Modelled from the spec: the files \<open>tasks.json\<close> and \<open>stream_events.json\<close> that
  \<open>load_tasks\<close> and \<open>load_stream_events\<close> read are not part of the sources, so the two
  collections are parameters, at the types of the data model: a TaskDatasetEntry has a
  task text and an optional system prompt, an EventSequence is an ordered sequence of text
  payloads. The key \<open>system_prompt\<close> of an entry is absent (\<open>Missing\<close>), present with
  \<open>null\<close> (\<open>Present None\<close>) or present with a text: \<open>dict.get\<close> with a default tells the
  first two apart.
\<close>

datatype 'a stored = Missing | Present 'a

record TaskDatasetEntry =
  entry_task :: pystr
  entry_system_prompt :: "pystr option stored"

record globals =
  ANTHROPIC_API_KEY :: pystr
  USE_MOCK :: bool
  TASKS :: "TaskDatasetEntry list"
  STREAM_EVENTS :: "pystr list list"

section \<open>Mock responses\<close>

definition MOCK_RESPONSES :: "pystr list" where
  "MOCK_RESPONSES =
    [[1054, 1090, 1083, 1080, 1095, 1085, 1099, 1081, 32, 1074, 1086, 1087, 1088, 1086,
      1089, 33, 32, 1042, 1086, 1090, 32, 1082, 1088, 1072, 1090, 1082, 1086, 1077, 32,
      1086, 1073, 1098, 1103, 1089, 1085, 1077, 1085, 1080, 1077, 58],
     [1069, 1090, 1086, 32, 1089, 1083, 1086, 1078, 1085, 1072, 1103, 32, 1090, 1077,
      1084, 1072, 44, 32, 1085, 1086, 32, 1103, 32, 1087, 1086, 1084, 1086, 1075, 1091,
      32, 1090, 1077, 1073, 1077, 32, 1088, 1072, 1079, 1086, 1073, 1088, 1072, 1090,
      1100, 1089, 1103, 46],
     [1055, 1086, 1079, 1074, 1086, 1083, 1100, 32, 1084, 1085, 1077, 32, 1076, 1072,
      1090, 1100, 32, 1088, 1072, 1079, 1074, 1077, 1088, 1085, 1091, 1090, 1099, 1081,
      32, 1086, 1090, 1074, 1077, 1090, 32, 1085, 1072, 32, 1101, 1090, 1086, 46],
     [1057, 1086, 1075, 1083, 1072, 1089, 1085, 1086, 32, 1083, 1091, 1095, 1096, 1080,
      1084, 32, 1087, 1088, 1072, 1082, 1090, 1080, 1082, 1072, 1084, 32, 1080, 1085,
      1076, 1091, 1089, 1090, 1088, 1080, 1080, 58],
     [1042, 1086, 1090, 32, 1087, 1086, 1096, 1072, 1075, 1086, 1074, 1086, 1077, 32,
      1088, 1077, 1096, 1077, 1085, 1080, 1077, 58],
     [1069, 1090, 1086, 32, 1084, 1086, 1078, 1085, 1086, 32, 1088, 1077, 1072, 1083,
      1080, 1079, 1086, 1074, 1072, 1090, 1100, 32, 1085, 1077, 1089, 1082, 1086, 1083,
      1100, 1082, 1080, 1084, 1080, 32, 1089, 1087, 1086, 1089, 1086, 1073, 1072, 1084,
      1080, 46],
     [1044, 1072, 1074, 1072, 1081, 32, 1088, 1072, 1079, 1073, 1077, 1088, 1077, 1084,
      1089, 1103, 32, 1074, 32, 1076, 1077, 1090, 1072, 1083, 1103, 1093, 32, 1101, 1090,
      1086, 1075, 1086, 32, 1074, 1086, 1087, 1088, 1086, 1089, 1072, 46],
     [1042, 1086, 1090, 32, 1086, 1087, 1090, 1080, 1084, 1072, 1083, 1100, 1085, 1099,
      1081, 32, 1087, 1086, 1076, 1093, 1086, 1076, 32, 1082, 32, 1101, 1090, 1086, 1081,
      32, 1087, 1088, 1086, 1073, 1083, 1077, 1084, 1077, 58],
     [1054, 1089, 1085, 1086, 1074, 1099, 1074, 1072, 1103, 1089, 1100, 32, 1085, 1072,
      32, 1086, 1087, 1099, 1090, 1077, 44, 32, 1088, 1077, 1082, 1086, 1084, 1077, 1085,
      1076, 1091, 1102, 58],
     [1047, 1076, 1077, 1089, 1100, 32, 1074, 1072, 1078, 1085, 1086, 32, 1086, 1073,
      1088, 1072, 1090, 1080, 1090, 1100, 32, 1074, 1085, 1080, 1084, 1072, 1085, 1080,
      1077, 32, 1085, 1072, 32, 1089, 1083, 1077, 1076, 1091, 1102, 1097, 1077, 1077,
      58]]"

definition generate_mock_response :: "pystr \<Rightarrow> rng \<Rightarrow> error + (json \<times> rng)" where
  "generate_mock_response task g =
     bind_err (choice MOCK_RESPONSES g) (\<lambda>(response_text, g1).
     bind_err (randint 10 50 g1) (\<lambda>(offset, g2).
     bind_err (randint 50 300 g2) (\<lambda>(output_tokens, g3).
       Inr (JObj
         [(ustr ''model'', JStr (ustr ''claude-3-opus-20240229'')),
          (ustr ''content'',
             JList [JObj
               [(ustr ''type'', JStr (ustr ''text'')),
                (ustr ''text'',
                   JStr (response_text @ [10, 10] @ take 100 task @ ustr ''...'' @
                         [10, 10] @ ustr ''[AKIONE]''))]]),
          (ustr ''usage'',
             JObj
               [(ustr ''input_tokens'', JInt (int (length (py_split task)) + offset)),
                (ustr ''output_tokens'', JInt output_tokens)])],
         g3))))"

section \<open>HTTP schema\<close>

record TaskRequest =
  task :: pystr
  system_prompt :: "pystr option"
  max_tokens :: int

record TaskResponse =
  model :: pystr
  output_text :: pystr
  input_tokens :: "int option"
  output_tokens :: "int option"

text \<open>
  \<open>TaskResponse(...)\<close> validates its arguments against the declared field types. A
  \<open>str\<close> is accepted for a \<open>str\<close> field, an \<open>int\<close> or \<open>None\<close> for an \<open>int | None\<close> field.
  Whether a value of another type is coerced or rejected is the validation library's
  business and depends on its version: it is the parameter \<open>pydantic\<close>.
\<close>

record pydantic =
  lax_str :: "json \<Rightarrow> pystr option"
  lax_int :: "json \<Rightarrow> int option"

definition validate_str :: "pydantic \<Rightarrow> json \<Rightarrow> error + pystr" where
  "validate_str P v =
     (case v of
        JStr s \<Rightarrow> Inr s
      | _ \<Rightarrow> (case lax_str P v of None \<Rightarrow> Inl ValidationError | Some s \<Rightarrow> Inr s))"

definition validate_opt_int :: "pydantic \<Rightarrow> json \<Rightarrow> error + int option" where
  "validate_opt_int P v =
     (case v of
        JNull \<Rightarrow> Inr None
      | JInt n \<Rightarrow> Inr (Some n)
      | _ \<Rightarrow> (case lax_int P v of None \<Rightarrow> Inl ValidationError | Some n \<Rightarrow> Inr (Some n)))"

section \<open>The upstream call\<close>

text \<open>
  The request that \<open>client.post\<close> sends to \<open>https://api.anthropic.com\<close> (timeout 60
  seconds, HTTP/2, certificates verified), and what comes back: a response, whose body
  may or may not parse as JSON (\<open>resp_json = None\<close>: \<open>response.json()\<close> raises), or an
  exception. The upstream service is a function of the request; a handler returns the
  requests it has sent together with its result.
\<close>

record http_request =
  request_path :: pystr
  request_headers :: "(pystr \<times> pystr) list"
  request_json :: json

record response =
  status_code :: int
  resp_text :: pystr
  resp_json :: "json option"

datatype outcome = Responded response | Raised client_error

type_synonym upstream = "http_request \<Rightarrow> outcome"

section \<open>POST /task\<close>

text \<open>Lines 113 to 159 of \<open>run_task\<close>: the payload, the call, the choice of \<open>data\<close>.\<close>

definition run_task_data ::
  "globals \<Rightarrow> upstream \<Rightarrow> TaskRequest \<Rightarrow> rng \<Rightarrow> http_request list \<times> (error + json)" where
  "run_task_data G up req g =
     (let anthropic_payload = JObj
            [(ustr ''model'', JStr (ustr ''claude-3-opus-20240229'')),
             (ustr ''max_tokens'', JInt (max_tokens req)),
             (ustr ''system'', (case system_prompt req of None \<Rightarrow> JNull | Some s \<Rightarrow> JStr s)),
             (ustr ''messages'',
                JList [JObj [(ustr ''role'', JStr (ustr ''user'')),
                             (ustr ''content'', JStr (task req))]])];
          sent = \<lparr>request_path = ustr ''/v1/messages'',
                  request_headers =
                    [(ustr ''Authorization'', ustr ''Bearer '' @ ANTHROPIC_API_KEY G),
                     (ustr ''Content-Type'', ustr ''application/json''),
                     (ustr ''Anthropic-Version'', ustr ''2023-06-01'')],
                  request_json = anthropic_payload\<rparr>
      in ([sent],
          (case up sent of
             Responded response \<Rightarrow>
               if status_code response \<noteq> 200 then
                 if status_code response \<in> set [401, 403, 500, 503] \<or> USE_MOCK G
                 then map_sum id fst (generate_mock_response (task req) g)
                 else Inl (HTTPException (status_code response) (resp_text response))
               else (case resp_json response of
                       None \<Rightarrow> Inl JSONDecodeError
                     | Some d \<Rightarrow> Inr d)
           | Raised e \<Rightarrow>
               if e \<in> set [RequestError, ConnectError, TimeoutError]
               then map_sum id fst (generate_mock_response (task req) g)
               else Inl (Propagated e))))"

text \<open>The comprehension of lines 162 to 166.\<close>

fun run_task_text_blocks :: "json list \<Rightarrow> error + json list" where
  "run_task_text_blocks [] = Inr []"
| "run_task_text_blocks (block # rest) =
     bind_err (py_get block (ustr ''type'') JNull) (\<lambda>ty.
       if ty = JStr (ustr ''text'')
       then bind_err (py_getitem block (ustr ''text'')) (\<lambda>t.
            bind_err (run_task_text_blocks rest) (\<lambda>ts. Inr (t # ts)))
       else run_task_text_blocks rest)"

text \<open>Lines 161 to 173: the arguments are evaluated in the order written.\<close>

definition run_task_response :: "pydantic \<Rightarrow> json \<Rightarrow> error + TaskResponse" where
  "run_task_response P data =
     bind_err (py_get data (ustr ''content'') (JList [])) (\<lambda>content.
     bind_err (py_iter content) (\<lambda>blocks.
     bind_err (run_task_text_blocks blocks) (\<lambda>text_blocks.
     bind_err (py_getitem data (ustr ''model'')) (\<lambda>m.
     bind_err (py_join [10] text_blocks) (\<lambda>joined.
     bind_err (py_get data (ustr ''usage'') (JObj [])) (\<lambda>usage_in.
     bind_err (py_get usage_in (ustr ''input_tokens'') JNull) (\<lambda>it.
     bind_err (py_get data (ustr ''usage'') (JObj [])) (\<lambda>usage_out.
     bind_err (py_get usage_out (ustr ''output_tokens'') JNull) (\<lambda>ot.
     bind_err (validate_str P m) (\<lambda>m'.
     bind_err (validate_str P (JStr joined)) (\<lambda>joined'.
     bind_err (validate_opt_int P it) (\<lambda>it'.
     bind_err (validate_opt_int P ot) (\<lambda>ot'.
       Inr \<lparr>model = m', output_text = joined',
            input_tokens = it', output_tokens = ot'\<rparr>)))))))))))))"

definition run_task ::
  "globals \<Rightarrow> pydantic \<Rightarrow> upstream \<Rightarrow> TaskRequest \<Rightarrow> rng \<Rightarrow>
   http_request list \<times> (error + TaskResponse)" where
  "run_task G P up req g =
     (case run_task_data G up req g of
        (sent, d) \<Rightarrow> (sent, bind_err d (run_task_response P)))"

section \<open>POST /task/send\<close>

text \<open>
  \<open>run_random_task\<close> does not call \<open>run_task\<close>: after the selection it repeats the
  pipeline line by line (lines 198 to 258), and so does the model.
\<close>

definition run_random_task_data ::
  "globals \<Rightarrow> upstream \<Rightarrow> TaskRequest \<Rightarrow> rng \<Rightarrow> http_request list \<times> (error + json)" where
  "run_random_task_data G up req g =
     (let anthropic_payload = JObj
            [(ustr ''model'', JStr (ustr ''claude-3-opus-20240229'')),
             (ustr ''max_tokens'', JInt (max_tokens req)),
             (ustr ''system'', (case system_prompt req of None \<Rightarrow> JNull | Some s \<Rightarrow> JStr s)),
             (ustr ''messages'',
                JList [JObj [(ustr ''role'', JStr (ustr ''user'')),
                             (ustr ''content'', JStr (task req))]])];
          sent = \<lparr>request_path = ustr ''/v1/messages'',
                  request_headers =
                    [(ustr ''Authorization'', ustr ''Bearer '' @ ANTHROPIC_API_KEY G),
                     (ustr ''Content-Type'', ustr ''application/json''),
                     (ustr ''Anthropic-Version'', ustr ''2023-06-01'')],
                  request_json = anthropic_payload\<rparr>
      in ([sent],
          (case up sent of
             Responded response \<Rightarrow>
               if status_code response \<noteq> 200 then
                 if status_code response \<in> set [401, 403, 500, 503] \<or> USE_MOCK G
                 then map_sum id fst (generate_mock_response (task req) g)
                 else Inl (HTTPException (status_code response) (resp_text response))
               else (case resp_json response of
                       None \<Rightarrow> Inl JSONDecodeError
                     | Some d \<Rightarrow> Inr d)
           | Raised e \<Rightarrow>
               if e \<in> set [RequestError, ConnectError, TimeoutError]
               then map_sum id fst (generate_mock_response (task req) g)
               else Inl (Propagated e))))"

fun run_random_task_text_blocks :: "json list \<Rightarrow> error + json list" where
  "run_random_task_text_blocks [] = Inr []"
| "run_random_task_text_blocks (block # rest) =
     bind_err (py_get block (ustr ''type'') JNull) (\<lambda>ty.
       if ty = JStr (ustr ''text'')
       then bind_err (py_getitem block (ustr ''text'')) (\<lambda>t.
            bind_err (run_random_task_text_blocks rest) (\<lambda>ts. Inr (t # ts)))
       else run_random_task_text_blocks rest)"

definition run_random_task_response :: "pydantic \<Rightarrow> json \<Rightarrow> error + TaskResponse" where
  "run_random_task_response P data =
     bind_err (py_get data (ustr ''content'') (JList [])) (\<lambda>content.
     bind_err (py_iter content) (\<lambda>blocks.
     bind_err (run_random_task_text_blocks blocks) (\<lambda>text_blocks.
     bind_err (py_getitem data (ustr ''model'')) (\<lambda>m.
     bind_err (py_join [10] text_blocks) (\<lambda>joined.
     bind_err (py_get data (ustr ''usage'') (JObj [])) (\<lambda>usage_in.
     bind_err (py_get usage_in (ustr ''input_tokens'') JNull) (\<lambda>it.
     bind_err (py_get data (ustr ''usage'') (JObj [])) (\<lambda>usage_out.
     bind_err (py_get usage_out (ustr ''output_tokens'') JNull) (\<lambda>ot.
     bind_err (validate_str P m) (\<lambda>m'.
     bind_err (validate_str P (JStr joined)) (\<lambda>joined'.
     bind_err (validate_opt_int P it) (\<lambda>it'.
     bind_err (validate_opt_int P ot) (\<lambda>ot'.
       Inr \<lparr>model = m', output_text = joined',
            input_tokens = it', output_tokens = ot'\<rparr>)))))))))))))"

definition run_random_task ::
  "globals \<Rightarrow> pydantic \<Rightarrow> upstream \<Rightarrow> rng \<Rightarrow>
   http_request list \<times> (error + TaskResponse)" where
  "run_random_task G P up g =
     (if TASKS G = []
      then ([], Inl (HTTPException 500 (ustr ''No tasks loaded from tasks.json'')))
      else (case choice (TASKS G) g of
              Inl e \<Rightarrow> ([], Inl e)
            | Inr (random_task_data, g1) \<Rightarrow>
                (let req = \<lparr>task = entry_task random_task_data,
                            system_prompt =
                              (case entry_system_prompt random_task_data of
                                 Missing \<Rightarrow> Some (ustr ''You are a senior software engineer'')
                               | Present v \<Rightarrow> v),
                            max_tokens = 1024\<rparr>
                 in (case run_random_task_data G up req g1 of
                       (sent, d) \<Rightarrow> (sent, bind_err d (run_random_task_response P))))))"

section \<open>GET /stream\<close>

text \<open>
  The messages that one run of the generator yields, in order. The pause after each
  payload (\<open>asyncio.sleep\<close> of a random duration) yields nothing and is left out.
\<close>

fun emit_events :: "pystr list \<Rightarrow> pystr list" where
  "emit_events [] = []"
| "emit_events (event # rest) = (ustr ''data: '' @ event @ [10, 10]) # emit_events rest"

definition event_generator :: "globals \<Rightarrow> rng \<Rightarrow> error + pystr list" where
  "event_generator G g =
     (if STREAM_EVENTS G = []
      then Inr [ustr ''event: error'' @ [10] @ ustr ''data: No events loaded'' @ [10, 10]]
      else bind_err (choice (STREAM_EVENTS G) g) (\<lambda>(events_sequence, g1).
             Inr (emit_events events_sequence @
                  [ustr ''event: done'' @ [10] @ ustr ''data: Sequence completed'' @
                   [10, 10]])))"

section \<open>Notions used to state the properties\<close>

text \<open>The body that the mock generator builds, as a function of the three random draws.\<close>

definition mock_body :: "pystr \<Rightarrow> pystr \<Rightarrow> int \<Rightarrow> int \<Rightarrow> json" where
  "mock_body phrase t n_in n_out =
     JObj
       [(ustr ''model'', JStr (ustr ''claude-3-opus-20240229'')),
        (ustr ''content'',
           JList [JObj
             [(ustr ''type'', JStr (ustr ''text'')),
              (ustr ''text'',
                 JStr (phrase @ [10, 10] @ take 100 t @ ustr ''...'' @
                       [10, 10] @ ustr ''[AKIONE]''))]]),
        (ustr ''usage'',
           JObj
             [(ustr ''input_tokens'', JInt n_in),
              (ustr ''output_tokens'', JInt n_out)])]"

text \<open>The TaskResponse built from the mock generator's body for a task text.\<close>

definition mock_result :: "pydantic \<Rightarrow> pystr \<Rightarrow> rng \<Rightarrow> error + TaskResponse" where
  "mock_result P t g =
     bind_err (generate_mock_response t g) (\<lambda>(body, g'). run_task_response P body)"

text \<open>The one request that a handler sends upstream for a TaskRequest.\<close>

definition sent_request :: "globals \<Rightarrow> TaskRequest \<Rightarrow> http_request" where
  "sent_request G req =
     \<lparr>request_path = ustr ''/v1/messages'',
      request_headers =
        [(ustr ''Authorization'', ustr ''Bearer '' @ ANTHROPIC_API_KEY G),
         (ustr ''Content-Type'', ustr ''application/json''),
         (ustr ''Anthropic-Version'', ustr ''2023-06-01'')],
      request_json = JObj
        [(ustr ''model'', JStr (ustr ''claude-3-opus-20240229'')),
         (ustr ''max_tokens'', JInt (max_tokens req)),
         (ustr ''system'', (case system_prompt req of None \<Rightarrow> JNull | Some s \<Rightarrow> JStr s)),
         (ustr ''messages'',
            JList [JObj [(ustr ''role'', JStr (ustr ''user'')),
                         (ustr ''content'', JStr (task req))]])]\<rparr>"



text \<open>The three kinds of message of the event stream, as the interface describes them.\<close>

definition data_message :: "pystr \<Rightarrow> pystr" where
  "data_message payload = ustr ''data: '' @ payload @ [10, 10]"

definition done_message :: pystr where
  "done_message = ustr ''event: done'' @ [10] @ ustr ''data: Sequence completed'' @ [10, 10]"

definition error_message :: pystr where
  "error_message = ustr ''event: error'' @ [10] @ ustr ''data: No events loaded'' @ [10, 10]"

text \<open>
  Content blocks: a field of a block, the blocks of type text, the blocks of a body (the
  sequence that the comprehension runs over), and the join of a list of strings.
\<close>

definition block_field :: "json \<Rightarrow> pystr \<Rightarrow> json option" where
  "block_field b k = (case b of JObj kvs \<Rightarrow> map_of kvs k | _ \<Rightarrow> None)"

definition is_text_block :: "json \<Rightarrow> bool" where
  "is_text_block b = (block_field b (ustr ''type'') = Some (JStr (ustr ''text'')))"

definition content_blocks :: "json \<Rightarrow> json list" where
  "content_blocks data =
     (case bind_err (py_get data (ustr ''content'') (JList [])) py_iter of
        Inl e \<Rightarrow> []
      | Inr bs \<Rightarrow> bs)"

fun join_with :: "pystr \<Rightarrow> pystr list \<Rightarrow> pystr" where
  "join_with sep [] = []"
| "join_with sep [x] = x"
| "join_with sep (x # y # ys) = x @ sep @ join_with sep (y # ys)"

text \<open>The exceptions that building a TaskResponse from a body can raise.\<close>

definition python_error :: "error \<Rightarrow> bool" where
  "python_error e = (e \<in> set [AttributeError, TypeError, KeyError, ValidationError])"

text \<open>
  Two conditions on a body: it has a model field, and every block of type text has a
  text field.
\<close>

definition has_model_field :: "json \<Rightarrow> bool" where
  "has_model_field data = (block_field data (ustr ''model'') \<noteq> None)"

definition text_blocks_have_text :: "json \<Rightarrow> bool" where
  "text_blocks_have_text data =
     list_all (\<lambda>b. block_field b (ustr ''text'') \<noteq> None)
       (filter is_text_block (content_blocks data))"

text \<open>
  A body of the expected types: an object whose model is a string, whose content, when
  present, is a list of objects in which a block of type text has a string text, and
  whose usage, when present, is an object with each token count absent, null or an
  integer.
\<close>

fun block_ok :: "json \<Rightarrow> bool" where
  "block_ok (JObj kvs) =
     (if map_of kvs (ustr ''type'') = Some (JStr (ustr ''text''))
      then (case map_of kvs (ustr ''text'') of Some (JStr s) \<Rightarrow> True | _ \<Rightarrow> False)
      else True)"
| "block_ok _ = False"

definition token_ok :: "json option \<Rightarrow> bool" where
  "token_ok v =
     (case v of None \<Rightarrow> True | Some JNull \<Rightarrow> True | Some (JInt n) \<Rightarrow> True | _ \<Rightarrow> False)"

definition well_formed_body :: "json \<Rightarrow> bool" where
  "well_formed_body data =
     (case data of
        JObj kvs \<Rightarrow>
          (case map_of kvs (ustr ''model'') of Some (JStr m) \<Rightarrow> True | _ \<Rightarrow> False) \<and>
          (case map_of kvs (ustr ''content'') of
             None \<Rightarrow> True
           | Some (JList bs) \<Rightarrow> list_all block_ok bs
           | _ \<Rightarrow> False) \<and>
          (case map_of kvs (ustr ''usage'') of
             None \<Rightarrow> True
           | Some (JObj u) \<Rightarrow>
               token_ok (map_of u (ustr ''input_tokens'')) \<and>
               token_ok (map_of u (ustr ''output_tokens''))
           | _ \<Rightarrow> False)
      | _ \<Rightarrow> False)"

section \<open>Example inputs\<close>

text \<open>A validator that coerces nothing, a random source that always draws 0.\<close>

definition strict :: pydantic where
  "strict = \<lparr>lax_str = (\<lambda>v. None), lax_int = (\<lambda>v. None)\<rparr>"

definition zero_rng :: rng where
  "zero_rng = (\<lambda>i. 0)"

definition example_globals :: globals where
  "example_globals =
     \<lparr>ANTHROPIC_API_KEY = ustr ''sk-test'',
      USE_MOCK = False,
      TASKS = [\<lparr>entry_task = ustr ''Write a sort'', entry_system_prompt = Missing\<rparr>,
               \<lparr>entry_task = ustr ''Fix the bug'',
                entry_system_prompt = Present (Some (ustr ''You are a tester''))\<rparr>],
      STREAM_EVENTS = [[ustr ''a'', ustr ''b''], [ustr ''c'']]\<rparr>"


definition forced_mock_globals :: globals where
  "forced_mock_globals = example_globals\<lparr>USE_MOCK := True\<rparr>"

definition example_request :: TaskRequest where
  "example_request =
     \<lparr>task = ustr ''Fix the bug in main'',
      system_prompt = Some (ustr ''You are a senior software engineer''),
      max_tokens = 1024\<rparr>"

text \<open>An upstream that answers every request alike, and one that always fails.\<close>

definition respond :: "int \<Rightarrow> pystr \<Rightarrow> json option \<Rightarrow> upstream" where
  "respond sc body parsed =
     (\<lambda>request. Responded \<lparr>status_code = sc, resp_text = body, resp_json = parsed\<rparr>)"

definition fail_with :: "client_error \<Rightarrow> upstream" where
  "fail_with e = (\<lambda>request. Raised e)"


definition quoted :: "pystr \<Rightarrow> pystr" where
  "quoted s = [34] @ s @ [34]"

definition real_body :: json where
  "real_body =
     JObj [(ustr ''model'', JStr (ustr ''claude-3-haiku-20240307'')),
           (ustr ''content'',
              JList [JObj [(ustr ''type'', JStr (ustr ''text'')),
                           (ustr ''text'', JStr (ustr ''real answer''))]])]"

definition real_text :: pystr where
  "real_text =
     ustr ''{'' @ quoted (ustr ''model'') @ ustr '': '' @
       quoted (ustr ''claude-3-haiku-20240307'') @ ustr '', '' @
     quoted (ustr ''content'') @ ustr '': [{'' @
       quoted (ustr ''type'') @ ustr '': '' @ quoted (ustr ''text'') @ ustr '', '' @
       quoted (ustr ''text'') @ ustr '': '' @ quoted (ustr ''real answer'') @ ustr ''}]}''"

definition mixed_body :: json where
  "mixed_body =
     JObj [(ustr ''model'', JStr (ustr ''claude-3-opus-20240229'')),
           (ustr ''content'',
              JList [JObj [(ustr ''type'', JStr (ustr ''text'')),
                           (ustr ''text'', JStr (ustr ''a''))],
                     JObj [(ustr ''type'', JStr (ustr ''tool_use'')),
                           (ustr ''name'', JStr (ustr ''search''))],
                     JObj [(ustr ''type'', JStr (ustr ''text'')),
                           (ustr ''text'', JStr (ustr ''b''))]])]"

definition null_usage_body :: json where
  "null_usage_body =
     JObj [(ustr ''model'', JStr (ustr ''m'')), (ustr ''usage'', JNull)]"

definition null_usage_text :: pystr where
  "null_usage_text =
     ustr ''{'' @ quoted (ustr ''model'') @ ustr '': '' @ quoted (ustr ''m'') @ ustr '', '' @
     quoted (ustr ''usage'') @ ustr '': null}''"

definition minimal_body :: json where
  "minimal_body = JObj [(ustr ''model'', JStr (ustr ''m''))]"

definition minimal_text :: pystr where
  "minimal_text =
     ustr ''{'' @ quoted (ustr ''model'') @ ustr '': '' @ quoted (ustr ''m'') @ ustr ''}''"

section \<open>Lemmas\<close>

subsection \<open>Strings and errors\<close>

lemma ustr_eq_iff [simp]: "ustr a = ustr b \<longleftrightarrow> a = b"
  by (simp add: ustr_def inj_map_eq_map [OF inj_of_char])

lemma bind_err_Inl [simp]: "bind_err (Inl e) f = Inl e"
  by (simp add: bind_err_def)

lemma bind_err_Inr [simp]: "bind_err (Inr x) f = f x"
  by (simp add: bind_err_def)

lemma bind_err_eq_Inr: "bind_err r f = Inr y \<longleftrightarrow> (\<exists>x. r = Inr x \<and> f x = Inr y)"
  by (cases r) simp_all

lemma bind_err_eq_Inl:
  "bind_err r f = Inl e \<longleftrightarrow> r = Inl e \<or> (\<exists>x. r = Inr x \<and> f x = Inl e)"
  by (cases r) simp_all

lemma py_split_example:
  "py_split (ustr ''Fix the bug in main'') =
     [ustr ''Fix'', ustr ''the'', ustr ''bug'', ustr ''in'', ustr ''main'']"
  by (simp add: py_split_def ustr_def py_isspace_def)

subsection \<open>The mock generator\<close>

lemma length_MOCK_RESPONSES: "length MOCK_RESPONSES = 10"
  by (simp add: MOCK_RESPONSES_def)

lemma choice_MOCK_RESPONSES:
  "choice MOCK_RESPONSES g = Inr (MOCK_RESPONSES ! (g 0 mod 10), \<lambda>i. g (Suc i))"
  using length_MOCK_RESPONSES by (auto simp: choice_def randbelow_def)

lemma randint_10_50: "randint 10 50 g = Inr (10 + int (g 0 mod 41), \<lambda>i. g (Suc i))"
  by (simp add: randint_def randbelow_def)

lemma randint_50_300: "randint 50 300 g = Inr (50 + int (g 0 mod 251), \<lambda>i. g (Suc i))"
  by (simp add: randint_def randbelow_def)

lemma generate_mock_response_eq:
  "generate_mock_response t g =
     Inr (mock_body (MOCK_RESPONSES ! (g 0 mod 10)) t
            (int (length (py_split t)) + (10 + int (g 1 mod 41)))
            (50 + int (g 2 mod 251)),
          \<lambda>i. g (Suc (Suc (Suc i))))"
  by (simp add: generate_mock_response_def choice_MOCK_RESPONSES randint_10_50
        randint_50_300 mock_body_def numeral_2_eq_2)

lemma run_task_response_mock:
  "run_task_response P (mock_body phrase t n_in n_out) =
     Inr \<lparr>model = ustr ''claude-3-opus-20240229'',
          output_text = phrase @ [10, 10] @ take 100 t @ ustr ''...'' @ [10, 10] @
                        ustr ''[AKIONE]'',
          input_tokens = Some n_in, output_tokens = Some n_out\<rparr>"
  by (simp add: run_task_response_def mock_body_def py_get_def py_getitem_def py_iter_def
        validate_str_def validate_opt_int_def)

lemma mock_result_eq:
  "mock_result P t g =
     Inr \<lparr>model = ustr ''claude-3-opus-20240229'',
          output_text = MOCK_RESPONSES ! (g 0 mod 10) @ [10, 10] @ take 100 t @ ustr ''...'' @
                        [10, 10] @ ustr ''[AKIONE]'',
          input_tokens = Some (int (length (py_split t)) + (10 + int (g 1 mod 41))),
          output_tokens = Some (50 + int (g 2 mod 251))\<rparr>"
  by (simp add: mock_result_def generate_mock_response_eq run_task_response_mock)

lemma mock_result_example:
  "mock_result P (ustr ''Fix the bug in main'') zero_rng =
     Inr \<lparr>model = ustr ''claude-3-opus-20240229'',
          output_text = MOCK_RESPONSES ! 0 @ [10, 10] @ ustr ''Fix the bug in main...'' @
                        [10, 10] @ ustr ''[AKIONE]'',
          input_tokens = Some 15, output_tokens = Some 50\<rparr>"
  by (simp add: mock_result_eq py_split_example zero_rng_def) (simp add: ustr_def)

subsection \<open>The two copies of the pipeline agree\<close>

lemma text_blocks_same: "run_random_task_text_blocks bs = run_task_text_blocks bs"
  by (induction bs) (simp_all cong: if_cong)

lemma response_same: "run_random_task_response P = run_task_response P"
  by (rule ext)
     (simp add: run_random_task_response_def run_task_response_def text_blocks_same)


subsection \<open>The handler by cases of the upstream outcome\<close>

lemma run_task_data_eq:
  "run_task_data G up req g =
     ([sent_request G req],
      (case up (sent_request G req) of
         Responded response \<Rightarrow>
           if status_code response \<noteq> 200 then
             if status_code response \<in> set [401, 403, 500, 503] \<or> USE_MOCK G
             then map_sum id fst (generate_mock_response (task req) g)
             else Inl (HTTPException (status_code response) (resp_text response))
           else (case resp_json response of
                   None \<Rightarrow> Inl JSONDecodeError
                 | Some d \<Rightarrow> Inr d)
       | Raised e \<Rightarrow>
           if e \<in> set [RequestError, ConnectError, TimeoutError]
           then map_sum id fst (generate_mock_response (task req) g)
           else Inl (Propagated e)))"
  by (simp add: run_task_data_def sent_request_def Let_def)

lemma run_task_eq:
  "snd (run_task G P up req g) =
     (case up (sent_request G req) of
        Responded response \<Rightarrow>
          if status_code response \<noteq> 200 then
            if status_code response \<in> set [401, 403, 500, 503] \<or> USE_MOCK G
            then mock_result P (task req) g
            else Inl (HTTPException (status_code response) (resp_text response))
          else (case resp_json response of
                  None \<Rightarrow> Inl JSONDecodeError
                | Some d \<Rightarrow> run_task_response P d)
      | Raised e \<Rightarrow>
          if e \<in> set [RequestError, ConnectError, TimeoutError]
          then mock_result P (task req) g
          else Inl (Propagated e))"
  by (simp add: run_task_def run_task_data_eq mock_result_def generate_mock_response_eq
        split: outcome.split option.split)

subsection \<open>Errors of the response stage\<close>

lemma py_get_error: "py_get d k x = Inl e \<Longrightarrow> python_error e"
  by (auto simp: py_get_def python_error_def split: json.splits)

lemma py_getitem_error: "py_getitem d k = Inl e \<Longrightarrow> python_error e"
  by (auto simp: py_getitem_def python_error_def split: json.splits option.splits)

lemma py_iter_error: "py_iter v = Inl e \<Longrightarrow> python_error e"
  by (auto simp: py_iter_def python_error_def split: json.splits)

lemma py_join_error: "py_join sep xs = Inl e \<Longrightarrow> python_error e"
  by (induction xs) (auto simp: python_error_def bind_err_eq_Inl split: json.splits)

lemma validate_str_error: "validate_str P v = Inl e \<Longrightarrow> python_error e"
  by (auto simp: validate_str_def python_error_def split: json.splits option.splits)

lemma validate_opt_int_error: "validate_opt_int P v = Inl e \<Longrightarrow> python_error e"
  by (auto simp: validate_opt_int_def python_error_def split: json.splits option.splits)

lemma run_task_text_blocks_error: "run_task_text_blocks bs = Inl e \<Longrightarrow> python_error e"
  by (induction bs)
     (auto simp: bind_err_eq_Inl split: if_splits dest: py_get_error py_getitem_error)

lemma run_task_response_error: "run_task_response P d = Inl e \<Longrightarrow> python_error e"
  unfolding run_task_response_def bind_err_eq_Inl
  by (elim disjE exE conjE)
     (auto dest: py_get_error py_getitem_error py_iter_error py_join_error
        validate_str_error validate_opt_int_error run_task_text_blocks_error)

lemma run_task_response_not_http: "run_task_response P d \<noteq> Inl (HTTPException sc detail)"
  using run_task_response_error [of P d "HTTPException sc detail"]
  by (auto simp: python_error_def)

lemma ill_typed_bodies_raise:
  "run_task_response P (JObj [(ustr ''model'', JStr m), (ustr ''content'', JNull)]) =
     Inl TypeError"
  "run_task_response P (JObj [(ustr ''model'', JStr m), (ustr ''content'', JList [JStr x])]) =
     Inl AttributeError"
  "run_task_response P
     (JObj [(ustr ''model'', JStr m),
            (ustr ''content'',
               JList [JObj [(ustr ''type'', JStr (ustr ''text'')), (ustr ''text'', JInt 5)]])]) =
     Inl TypeError"
  "run_task_response P
     (JObj [(ustr ''model'', JStr m),
            (ustr ''content'', JList [JObj [(ustr ''type'', JStr (ustr ''text''))]])]) =
     Inl KeyError"
  by (simp_all add: run_task_response_def py_get_def py_getitem_def py_iter_def)

subsection \<open>Text extraction\<close>

lemma py_join_Inr:
  "py_join sep ts = Inr joined \<Longrightarrow> \<exists>texts. ts = map JStr texts \<and> joined = join_with sep texts"
proof (induction ts arbitrary: joined)
  case Nil
  then show ?case by simp
next
  case (Cons x xs)
  from Cons.prems obtain s r where x: "x = JStr s" and r: "py_join sep xs = Inr r"
    and j: "joined = (if xs = [] then s else s @ sep @ r)"
    by (auto simp: bind_err_eq_Inr split: json.splits)
  from Cons.IH [OF r] obtain texts where t: "xs = map JStr texts" "r = join_with sep texts"
    by blast
  show ?case
  proof (cases texts)
    case Nil
    with x j t show ?thesis by (intro exI [of _ "[s]"]) simp
  next
    case (Cons y ys)
    with x j t show ?thesis by (intro exI [of _ "s # texts"]) simp
  qed
qed

lemma py_join_strs: "py_join sep (map JStr texts) = Inr (join_with sep texts)"
  by (induction sep texts rule: join_with.induct) simp_all

lemma run_task_text_blocks_Inr:
  "run_task_text_blocks bs = Inr ts \<Longrightarrow>
     map (\<lambda>b. block_field b (ustr ''text'')) (filter is_text_block bs) = map Some ts"
proof (induction bs arbitrary: ts)
  case Nil
  then show ?case by simp
next
  case (Cons b bs)
  show ?case
  proof (cases b)
    case (JObj kvs)
    with Cons show ?thesis
      by (auto simp: bind_err_eq_Inr py_get_def py_getitem_def block_field_def
            is_text_block_def split: if_splits option.splits)
  qed (use Cons.prems in \<open>simp_all add: py_get_def\<close>)
qed

lemma run_task_text_blocks_ok:
  "list_all block_ok bs \<Longrightarrow> \<exists>texts. run_task_text_blocks bs = Inr (map JStr texts)"
proof (induction bs)
  case Nil
  then show ?case by simp
next
  case (Cons b bs)
  then obtain texts where t: "run_task_text_blocks bs = Inr (map JStr texts)"
    by auto
  from Cons.prems obtain kvs where b: "b = JObj kvs"
    by (cases b) simp_all
  show ?case
  proof (cases "map_of kvs (ustr ''type'') = Some (JStr (ustr ''text''))")
    case True
    with Cons.prems b obtain s where "map_of kvs (ustr ''text'') = Some (JStr s)"
      by (auto split: option.splits json.splits)
    with True b t show ?thesis
      by (intro exI [of _ "s # texts"]) (simp add: py_get_def py_getitem_def)
  next
    case False
    with b t show ?thesis
      by (intro exI [of _ texts]) (auto simp: py_get_def split: option.splits)
  qed
qed

subsection \<open>Bodies of the expected types\<close>

lemma validate_token_ok:
  "token_ok v \<Longrightarrow>
   \<exists>n. validate_opt_int P (case v of None \<Rightarrow> JNull | Some x \<Rightarrow> x) = Inr n \<and>
       (v = None \<longrightarrow> n = None)"
  by (auto simp: token_ok_def validate_opt_int_def split: option.splits json.splits)

lemma run_task_response_well_formed:
  assumes "well_formed_body data"
  shows "\<exists>r. run_task_response P data = Inr r \<and>
             (block_field data (ustr ''content'') = None \<longrightarrow> output_text r = []) \<and>
             (block_field data (ustr ''usage'') = None \<longrightarrow>
                input_tokens r = None \<and> output_tokens r = None)"
proof -
  from assms obtain kvs where d: "data = JObj kvs"
    by (cases data) (simp_all add: well_formed_body_def)
  from assms d obtain m where m: "map_of kvs (ustr ''model'') = Some (JStr m)"
    by (auto simp: well_formed_body_def split: option.splits json.splits)
  have "\<exists>c bs texts.
          py_get data (ustr ''content'') (JList []) = Inr c \<and> py_iter c = Inr bs \<and>
          run_task_text_blocks bs = Inr (map JStr texts) \<and>
          (map_of kvs (ustr ''content'') = None \<longrightarrow> texts = [])"
  proof (cases "map_of kvs (ustr ''content'')")
    case None
    with d show ?thesis by (simp add: py_get_def py_iter_def)
  next
    case (Some c)
    with assms d obtain bs where c: "c = JList bs" and ok: "list_all block_ok bs"
      by (auto simp: well_formed_body_def split: json.splits)
    from run_task_text_blocks_ok [OF ok] Some c d show ?thesis
      by (auto simp: py_get_def py_iter_def)
  qed
  then obtain c bs texts where
    c: "py_get data (ustr ''content'') (JList []) = Inr c" "py_iter c = Inr bs"
       "run_task_text_blocks bs = Inr (map JStr texts)" and
    e: "map_of kvs (ustr ''content'') = None \<longrightarrow> texts = []"
    by auto
  have "\<exists>u ti to.
          py_get data (ustr ''usage'') (JObj []) = Inr u \<and>
          validate_opt_int P
            (case block_field u (ustr ''input_tokens'') of None \<Rightarrow> JNull | Some x \<Rightarrow> x) =
            Inr ti \<and>
          validate_opt_int P
            (case block_field u (ustr ''output_tokens'') of None \<Rightarrow> JNull | Some x \<Rightarrow> x) =
            Inr to \<and>
          (\<exists>ukvs. u = JObj ukvs) \<and>
          (map_of kvs (ustr ''usage'') = None \<longrightarrow> ti = None \<and> to = None)"
  proof (cases "map_of kvs (ustr ''usage'')")
    case None
    with d show ?thesis
      by (simp add: py_get_def block_field_def validate_opt_int_def)
  next
    case (Some u)
    with assms d obtain ukvs where u: "u = JObj ukvs"
      and ok: "token_ok (map_of ukvs (ustr ''input_tokens''))"
              "token_ok (map_of ukvs (ustr ''output_tokens''))"
      by (auto simp: well_formed_body_def split: json.splits)
    from validate_token_ok [OF ok(1), of P] validate_token_ok [OF ok(2), of P] Some u d
    show ?thesis
      by (auto simp: py_get_def block_field_def)
  qed
  then obtain u ukvs ti to where
    u: "py_get data (ustr ''usage'') (JObj []) = Inr u" "u = JObj ukvs"
       "validate_opt_int P
          (case block_field u (ustr ''input_tokens'') of None \<Rightarrow> JNull | Some x \<Rightarrow> x) =
          Inr ti"
       "validate_opt_int P
          (case block_field u (ustr ''output_tokens'') of None \<Rightarrow> JNull | Some x \<Rightarrow> x) =
          Inr to" and
    n: "map_of kvs (ustr ''usage'') = None \<longrightarrow> ti = None \<and> to = None"
    by auto
  have "run_task_response P data =
          Inr \<lparr>model = m, output_text = join_with [10] texts,
               input_tokens = ti, output_tokens = to\<rparr>"
    using c u d m
    by (simp add: run_task_response_def py_join_strs py_getitem_def validate_str_def
          py_get_def block_field_def)
  with e n d show ?thesis
    by (auto simp: block_field_def)
qed

lemma block_ok_text_field:
  "list_all block_ok bs \<Longrightarrow>
   list_all (\<lambda>b. block_field b (ustr ''text'') \<noteq> None) (filter is_text_block bs)"
proof (induction bs)
  case Nil
  then show ?case by simp
next
  case (Cons b bs)
  then show ?case
    by (cases b) (auto simp: is_text_block_def block_field_def split: option.splits)
qed

lemma well_formed_body_conditions:
  assumes "well_formed_body data"
  shows "has_model_field data \<and> text_blocks_have_text data"
proof -
  from assms obtain kvs where d: "data = JObj kvs"
    by (cases data) (simp_all add: well_formed_body_def)
  from assms d have m: "has_model_field data"
    by (auto simp: well_formed_body_def has_model_field_def block_field_def
          split: option.splits)
  have "text_blocks_have_text data"
  proof (cases "map_of kvs (ustr ''content'')")
    case None
    with d show ?thesis
      by (simp add: text_blocks_have_text_def content_blocks_def py_get_def py_iter_def)
  next
    case (Some c)
    with assms d obtain bs where c: "c = JList bs" and ok: "list_all block_ok bs"
      by (auto simp: well_formed_body_def split: json.splits)
    from block_ok_text_field [OF ok] Some c d show ?thesis
      by (simp add: text_blocks_have_text_def content_blocks_def py_get_def py_iter_def)
  qed
  with m show ?thesis ..
qed

subsection \<open>The event stream\<close>

lemma emit_events_map: "emit_events es = map data_message es"
  by (induction es) (simp_all add: data_message_def)

section \<open>The claims\<close>

subsection \<open>C1: the forced-mock flag\<close>

text \<open>
  C1 states that with the forced-mock flag enabled every POST /task request returns a
  TaskResponse with the fixed mock model identifier, for every upstream outcome, an HTTP
  200 included. \<open>run_task\<close> reads \<open>USE_MOCK\<close> only inside the branch
  \<open>response.status_code != 200\<close>: an upstream 200 is passed through as it is. With the
  flag enabled, the body of an upstream 200 decides the response, here one with another
  model identifier.
\<close>

theorem forced_mock_counterexample:
  "USE_MOCK forced_mock_globals \<and>
   snd (run_task forced_mock_globals strict (respond 200 real_text (Some real_body))
          example_request zero_rng) =
     Inr \<lparr>model = ustr ''claude-3-haiku-20240307'', output_text = ustr ''real answer'',
          input_tokens = None, output_tokens = None\<rparr> \<and>
   ustr ''claude-3-haiku-20240307'' \<noteq> ustr ''claude-3-opus-20240229''"
  by (simp add: forced_mock_globals_def example_globals_def run_task_def run_task_data_def
        respond_def real_body_def run_task_response_def py_get_def py_getitem_def py_iter_def
        validate_str_def validate_opt_int_def strict_def Let_def)

text \<open>
  C1 as the code has it: with the forced-mock flag enabled, every POST /task request whose
  upstream call completes with a status other than 200, or fails with a connection error
  or a timeout, returns the TaskResponse built from the mock generator, whose model is the
  fixed mock model identifier; an upstream 200 with a parsed body is answered from that
  body.
\<close>

theorem forced_mock_on_failure:
  assumes "USE_MOCK G"
  shows "((\<exists>resp. up (sent_request G req) = Responded resp \<and> status_code resp \<noteq> 200) \<or>
          (\<exists>e. up (sent_request G req) = Raised e \<and>
               e \<in> set [RequestError, ConnectError, TimeoutError]) \<longrightarrow>
          snd (run_task G P up req g) = mock_result P (task req) g \<and>
          (\<exists>r. mock_result P (task req) g = Inr r \<and>
               model r = ustr ''claude-3-opus-20240229'')) \<and>
         (\<forall>resp d. up (sent_request G req) = Responded resp \<and> status_code resp = 200 \<and>
                   resp_json resp = Some d \<longrightarrow>
                   snd (run_task G P up req g) = run_task_response P d)"
  using assms by (auto simp: run_task_eq mock_result_eq)

theorem forced_mock_on_failure_witness:
  "USE_MOCK forced_mock_globals \<and>
   snd (run_task forced_mock_globals strict (respond 418 (ustr ''teapot'') None)
          example_request zero_rng) =
     mock_result strict (task example_request) zero_rng \<and>
   (\<exists>r. mock_result strict (task example_request) zero_rng = Inr r \<and>
        model r = ustr ''claude-3-opus-20240229'') \<and>
   snd (run_task forced_mock_globals strict (respond 200 real_text (Some real_body))
          example_request zero_rng) =
     run_task_response strict real_body"
proof -
  have m: "USE_MOCK forced_mock_globals"
    by (simp add: forced_mock_globals_def)
  from forced_mock_on_failure [OF m, of "respond 418 (ustr ''teapot'') None" example_request
      strict zero_rng]
    forced_mock_on_failure [OF m, of "respond 200 real_text (Some real_body)" example_request
      strict zero_rng] m
  show ?thesis
    by (simp add: respond_def)
qed

subsection \<open>C2: when the handler raises an HTTP error\<close>

text \<open>
  C2: for every POST /task request, the handler raises an HTTP error if and only if the
  upstream call completes with a status that is neither 200 nor one of 401, 403, 500, 503
  and the mock flag is off, and the error then carries the upstream status code and the
  upstream body as detail; the statuses 401, 403, 500, 503 and every connection error or
  timeout yield the response built from the mock generator, which is never an error.
\<close>

theorem task_http_error_iff:
  "((\<exists>sc detail. snd (run_task G P up req g) = Inl (HTTPException sc detail)) \<longleftrightarrow>
      (\<exists>resp. up (sent_request G req) = Responded resp \<and>
              status_code resp \<notin> set [200, 401, 403, 500, 503] \<and> \<not> USE_MOCK G)) \<and>
   (\<forall>resp. up (sent_request G req) = Responded resp \<and>
           status_code resp \<notin> set [200, 401, 403, 500, 503] \<and> \<not> USE_MOCK G \<longrightarrow>
           snd (run_task G P up req g) =
             Inl (HTTPException (status_code resp) (resp_text resp))) \<and>
   (\<forall>resp. up (sent_request G req) = Responded resp \<and>
           status_code resp \<in> set [401, 403, 500, 503] \<longrightarrow>
           snd (run_task G P up req g) = mock_result P (task req) g \<and>
           (\<exists>r. mock_result P (task req) g = Inr r)) \<and>
   (\<forall>e. up (sent_request G req) = Raised e \<and>
        e \<in> set [RequestError, ConnectError, TimeoutError] \<longrightarrow>
        snd (run_task G P up req g) = mock_result P (task req) g \<and>
        (\<exists>r. mock_result P (task req) g = Inr r))"
proof (intro conjI allI impI)
  show "(\<exists>sc detail. snd (run_task G P up req g) = Inl (HTTPException sc detail)) \<longleftrightarrow>
      (\<exists>resp. up (sent_request G req) = Responded resp \<and>
              status_code resp \<notin> set [200, 401, 403, 500, 503] \<and> \<not> USE_MOCK G)"
  proof (cases "up (sent_request G req)")
    case (Responded resp)
    then show ?thesis
      by (auto simp: run_task_eq mock_result_eq run_task_response_not_http
            split: option.splits)
  next
    case (Raised e)
    then show ?thesis
      by (auto simp: run_task_eq mock_result_eq)
  qed
qed (auto simp: run_task_eq mock_result_eq)

theorem task_http_error_iff_witness:
  "snd (run_task example_globals strict (respond 418 (ustr ''teapot'') None)
          example_request zero_rng) = Inl (HTTPException 418 (ustr ''teapot'')) \<and>
   snd (run_task example_globals strict (respond 401 (ustr ''unauthorized'') None)
          example_request zero_rng) = mock_result strict (task example_request) zero_rng \<and>
   snd (run_task example_globals strict (fail_with ConnectError)
          example_request zero_rng) = mock_result strict (task example_request) zero_rng \<and>
   (\<exists>r. mock_result strict (task example_request) zero_rng = Inr r)"
  using
    task_http_error_iff [of example_globals strict "respond 418 (ustr ''teapot'') None"
      example_request zero_rng]
    task_http_error_iff [of example_globals strict "respond 401 (ustr ''unauthorized'') None"
      example_request zero_rng]
    task_http_error_iff [of example_globals strict "fail_with ConnectError"
      example_request zero_rng]
  by (simp add: respond_def fail_with_def example_globals_def)

subsection \<open>C3: the output text\<close>

text \<open>
  C3: for every response body from which either handler builds a TaskResponse,
  \<open>output_text\<close> is the
  newline-separated join, in the original order, of the text fields of exactly those
  content blocks whose type field equals \<open>text\<close>; the other blocks contribute nothing.
  The text fields of the text blocks are strings \<open>texts\<close>, in order, and the output is
  their join.
\<close>

theorem output_text_is_join_of_text_blocks:
  assumes "run_task_response P data = Inr r \<or> run_random_task_response P data = Inr r"
  shows "\<exists>texts.
           map (\<lambda>b. block_field b (ustr ''text''))
               (filter is_text_block (content_blocks data)) =
             map (\<lambda>t. Some (JStr t)) texts \<and>
           output_text r = join_with [10] texts"
proof -
  from assms have "run_task_response P data = Inr r"
    by (simp add: response_same)
  then obtain c bs ts joined where
    c: "py_get data (ustr ''content'') (JList []) = Inr c" and
    bs: "py_iter c = Inr bs" and
    ts: "run_task_text_blocks bs = Inr ts" and
    j: "py_join [10] ts = Inr joined" and
    out: "output_text r = joined"
    by (auto simp: run_task_response_def bind_err_eq_Inr validate_str_def)
  from c bs have cb: "content_blocks data = bs"
    by (simp add: content_blocks_def)
  from py_join_Inr [OF j] obtain texts where
    t: "ts = map JStr texts" "joined = join_with [10] texts" by blast
  from run_task_text_blocks_Inr [OF ts] t cb out show ?thesis
    by (intro exI [of _ texts]) simp
qed

theorem output_text_is_join_of_text_blocks_witness:
  "run_task_response strict mixed_body =
     Inr \<lparr>model = ustr ''claude-3-opus-20240229'', output_text = ustr ''a'' @ [10] @ ustr ''b'',
          input_tokens = None, output_tokens = None\<rparr> \<and>
   (\<exists>texts.
      map (\<lambda>b. block_field b (ustr ''text''))
          (filter is_text_block (content_blocks mixed_body)) =
        map (\<lambda>t. Some (JStr t)) texts \<and>
      ustr ''a'' @ [10] @ ustr ''b'' = join_with [10] texts)"
proof -
  have h: "run_task_response strict mixed_body =
     Inr \<lparr>model = ustr ''claude-3-opus-20240229'', output_text = ustr ''a'' @ [10] @ ustr ''b'',
          input_tokens = None, output_tokens = None\<rparr>"
    by (simp add: mixed_body_def run_task_response_def py_get_def py_getitem_def py_iter_def
          validate_str_def validate_opt_int_def)
  from output_text_is_join_of_text_blocks [OF disjI1, OF h] h show ?thesis
    by simp
qed

subsection \<open>C4: the stream of a non-empty collection\<close>

text \<open>
  C4: for every non-empty collection of event sequences, one run of the /stream generator
  emits exactly one message \<open>data: <payload>\<close> per payload of the selected sequence, in
  the stored order, then exactly one terminal message \<open>event: done\<close> with the data
  \<open>Sequence completed\<close>, and nothing else. The selected sequence is the one at the index
  drawn from the random source.
\<close>

theorem stream_emits_selected_sequence:
  assumes "STREAM_EVENTS G \<noteq> []"
  shows "\<exists>events_sequence.
           events_sequence \<in> set (STREAM_EVENTS G) \<and>
           events_sequence = STREAM_EVENTS G ! (g 0 mod length (STREAM_EVENTS G)) \<and>
           event_generator G g = Inr (map data_message events_sequence @ [done_message])"
  using assms
  by (simp add: event_generator_def choice_def randbelow_def emit_events_map done_message_def)

theorem stream_emits_selected_sequence_witness:
  "STREAM_EVENTS example_globals \<noteq> [] \<and>
   event_generator example_globals zero_rng =
     Inr [ustr ''data: a'' @ [10, 10], ustr ''data: b'' @ [10, 10],
          ustr ''event: done'' @ [10] @ ustr ''data: Sequence completed'' @ [10, 10]]"
proof -
  have h: "STREAM_EVENTS example_globals \<noteq> []"
    by (simp add: example_globals_def)
  from stream_emits_selected_sequence [OF h, of zero_rng] h show ?thesis
    by (simp add: example_globals_def zero_rng_def data_message_def done_message_def ustr_def)
qed

subsection \<open>C5: /task/send repeats /task\<close>




subsection \<open>C6: the mock generator\<close>

text \<open>
  C6: for every task text, the mock generator returns, and never raises, a body with the
  fixed model identifier \<open>claude-3-opus-20240229\<close>, exactly one content block, of type
  text, whose text is a phrase of the fixed phrase set, a blank line, the first 100
  characters of the task, and the fixed suffix (an ellipsis, a blank line and the marker),
  and a usage record whose \<open>input_tokens\<close> is the word count of the task plus an integer
  in [10, 50] and whose \<open>output_tokens\<close> is an integer in [50, 300].
\<close>

theorem generate_mock_response_shape:
  "\<exists>phrase offset n_out g'.
     phrase \<in> set MOCK_RESPONSES \<and> 10 \<le> offset \<and> offset \<le> 50 \<and> 50 \<le> n_out \<and> n_out \<le> 300 \<and>
     generate_mock_response t g =
       Inr (JObj
         [(ustr ''model'', JStr (ustr ''claude-3-opus-20240229'')),
          (ustr ''content'',
             JList [JObj
               [(ustr ''type'', JStr (ustr ''text'')),
                (ustr ''text'',
                   JStr (phrase @ [10, 10] @ take 100 t @ ustr ''...'' @
                         [10, 10] @ ustr ''[AKIONE]''))]]),
          (ustr ''usage'',
             JObj
               [(ustr ''input_tokens'', JInt (int (length (py_split t)) + offset)),
                (ustr ''output_tokens'', JInt n_out)])],
         g')"
proof -
  let ?p = "MOCK_RESPONSES ! (g 0 mod 10)"
  let ?off = "10 + int (g 1 mod 41)"
  let ?out = "50 + int (g 2 mod 251)"
  have "?p \<in> set MOCK_RESPONSES"
    by (rule nth_mem) (simp add: length_MOCK_RESPONSES)
  moreover have "10 \<le> ?off" "?off \<le> 50" "50 \<le> ?out" "?out \<le> 300"
    by simp_all
  moreover note generate_mock_response_eq [of t g, unfolded mock_body_def]
  ultimately show ?thesis by blast
qed

subsection \<open>C7: the stream of an empty collection\<close>

text \<open>
  C7: when the collection of event sequences is empty, one run of the /stream generator
  emits exactly one message, \<open>event: error\<close> with the data \<open>No events loaded\<close>, and
  ends; it emits no \<open>data:\<close> payload message and no terminal done message.
\<close>

theorem stream_empty_emits_error:
  assumes "STREAM_EVENTS G = []"
  shows "event_generator G g = Inr [error_message] \<and>
         done_message \<notin> set [error_message] \<and>
         (\<forall>payload. data_message payload \<notin> set [error_message])"
  using assms
  by (auto simp: event_generator_def error_message_def done_message_def data_message_def
        ustr_def)

theorem stream_empty_emits_error_witness:
  "STREAM_EVENTS (example_globals\<lparr>STREAM_EVENTS := []\<rparr>) = [] \<and>
   event_generator (example_globals\<lparr>STREAM_EVENTS := []\<rparr>) zero_rng =
     Inr [ustr ''event: error'' @ [10] @ ustr ''data: No events loaded'' @ [10, 10]]"
  using stream_empty_emits_error [of "example_globals\<lparr>STREAM_EVENTS := []\<rparr>" zero_rng]
  by (simp add: error_message_def)

subsection \<open>C8: /task/send with no tasks\<close>

text \<open>
  C8: when the task dataset is empty, every POST /task/send request fails with HTTP status
  500 and the detail \<open>No tasks loaded from tasks.json\<close>; no request is sent upstream and
  no TaskResponse is built.
\<close>

theorem send_empty_dataset_is_500:
  assumes "TASKS G = []"
  shows "run_random_task G P up g =
           ([], Inl (HTTPException 500 (ustr ''No tasks loaded from tasks.json'')))"
  using assms by (simp add: run_random_task_def)

theorem send_empty_dataset_is_500_witness:
  "TASKS (example_globals\<lparr>TASKS := []\<rparr>) = [] \<and>
   run_random_task (example_globals\<lparr>TASKS := []\<rparr>) strict
       (respond 200 real_text (Some real_body)) zero_rng =
     ([], Inl (HTTPException 500 (ustr ''No tasks loaded from tasks.json'')))"
  using send_empty_dataset_is_500 [of "example_globals\<lparr>TASKS := []\<rparr>" strict
      "respond 200 real_text (Some real_body)" zero_rng]
  by simp

subsection \<open>C9: bodies with missing keys\<close>

text \<open>
  C9 states that the /task handler returns normally for every parsed upstream 200 body
  that has a model field and in which every block of type text has a text field. The
  handler calls \<open>.get\<close> on whatever the key \<open>usage\<close> holds: a body whose usage is null
  meets both conditions and the handler raises AttributeError.
\<close>

theorem missing_keys_counterexample:
  "has_model_field null_usage_body \<and>
   text_blocks_have_text null_usage_body \<and>
   snd (run_task example_globals strict (respond 200 null_usage_text (Some null_usage_body))
          example_request zero_rng) = Inl AttributeError"
  by (simp add: has_model_field_def text_blocks_have_text_def content_blocks_def block_field_def
        null_usage_body_def run_task_def run_task_data_def respond_def run_task_response_def
        py_get_def py_getitem_def py_iter_def Let_def)

text \<open>
  C9 as the code has it: for every parsed upstream 200 body that is an object whose model
  is a string, whose content, when present, is a list of objects in which every block of
  type text has a string text, and whose usage, when present, is an object whose two token
  counts are each absent, null or an integer, the /task handler returns normally; a body
  with no content key yields an empty \<open>output_text\<close>, and a body with no usage key yields
  \<open>input_tokens = None\<close> and \<open>output_tokens = None\<close>.
\<close>

theorem task_returns_on_well_formed_body:
  assumes "up (sent_request G req) = Responded resp"
      and "status_code resp = 200"
      and "resp_json resp = Some data"
      and "well_formed_body data"
  shows "\<exists>r. snd (run_task G P up req g) = Inr r \<and>
             (block_field data (ustr ''content'') = None \<longrightarrow> output_text r = []) \<and>
             (block_field data (ustr ''usage'') = None \<longrightarrow>
                input_tokens r = None \<and> output_tokens r = None)"
  using run_task_response_well_formed [OF assms(4), of P] assms(1-3)
  by (simp add: run_task_eq)

theorem task_returns_on_well_formed_body_witness:
  "well_formed_body minimal_body \<and>
   (\<exists>r. snd (run_task example_globals strict (respond 200 minimal_text (Some minimal_body))
               example_request zero_rng) = Inr r \<and>
        output_text r = [] \<and> input_tokens r = None \<and> output_tokens r = None)"
proof -
  have w: "well_formed_body minimal_body"
    by (simp add: well_formed_body_def minimal_body_def)
  have n: "block_field minimal_body (ustr ''content'') = None"
          "block_field minimal_body (ustr ''usage'') = None"
    by (simp_all add: block_field_def minimal_body_def)
  from task_returns_on_well_formed_body [of "respond 200 minimal_text (Some minimal_body)"
      example_globals example_request _ minimal_body strict zero_rng, OF _ _ _ w] n w
  show ?thesis
    by (simp add: respond_def)
qed

subsection \<open>C10: a mock answer is identifiable\<close>

text \<open>
  C10: for every task text, the TaskResponse built from the mock generator's body, by
  either handler, has an \<open>output_text\<close> that ends with the marker \<open>[AKIONE]\<close> and has
  both \<open>input_tokens\<close> and \<open>output_tokens\<close> present.
\<close>

theorem mock_response_is_identifiable:
  "\<exists>body g' r.
     generate_mock_response t g = Inr (body, g') \<and>
     run_task_response P body = Inr r \<and>
     run_random_task_response P body = Inr r \<and>
     suffix (ustr ''[AKIONE]'') (output_text r) \<and>
     input_tokens r \<noteq> None \<and> output_tokens r \<noteq> None"
  unfolding response_same
  by (simp add: generate_mock_response_eq run_task_response_mock suffix_def)

end
